theory Spec2Isabelle
  imports Main "HOL-Library.AList" "HOL-Library.Multiset"
begin

section \<open>Errors\<close>

text \<open>
  Go errors as values. \<open>Errorf\<close> is an error made by \<^verbatim>\<open>fmt.Errorf\<close> from a
  finished message, \<open>Wrap\<close> one made with the verb \<^verbatim>\<open>%w\<close> around another error
  (the string is the text before the colon), \<open>RetryErrors\<close> the list of errors that
  \<^verbatim>\<open>retry.Do\<close> hands back when every attempt failed, and \<open>External\<close> an error
  produced by a collaborator (the Docker daemon, the object-store client library).
  The registry package has no error type of its own: both failures of
  \<^verbatim>\<open>MatchService\<close> are plain \<^verbatim>\<open>fmt.Errorf\<close> values, the class the
  specification names NotFoundError.
\<close>

datatype error =
    Errorf string
  | Wrap string error
  | RetryErrors "error list"
  | External string

section \<open>internal/registry\<close>

record ServiceMetadata =
  Name :: string
  IPAddress :: string
  AccessKey :: string
  SecretKey :: string

text \<open>The zero value \<^verbatim>\<open>ServiceMetadata{}\<close>.\<close>

definition zeroServiceMetadata :: ServiceMetadata where
  "zeroServiceMetadata = \<lparr>Name = [], IPAddress = [], AccessKey = [], SecretKey = []\<rparr>"

text \<open>
  What \<^verbatim>\<open>fmt\<close> prints for a \<^verbatim>\<open>ServiceMetadata\<close> under the verb \<^verbatim>\<open>%s\<close>:
  the fields in declaration order, separated by one space, in braces.
\<close>

definition fmt_s :: "ServiceMetadata \<Rightarrow> string" where
  "fmt_s m = ''{'' @ Name m @ '' '' @ IPAddress m @ '' '' @ AccessKey m @ '' '' @ SecretKey m @ ''}''"

subsection \<open>The consistent-hash ring\<close>

text \<open>
  Modelled from the spec: the ring is the type \<^verbatim>\<open>hash.ConsistentHash\<close> of the go-zero
  library, which is not part of the repository. The specification describes it as the set
  of node identities arranged on a hash ring, with \<open>Add\<close> and \<open>Remove\<close> of an identity
  (each a no-op when there is nothing to do) and an ownership lookup that names exactly
  one owner for every key and fails only when the ring is empty. The ownership rule
  itself (hash function, virtual nodes) is the field \<open>owner\<close>; nothing below depends on
  which identity it picks.
\<close>

record ConsistentHash =
  owner :: "string set \<Rightarrow> string \<Rightarrow> string"
  nodes :: "string set"

definition NewConsistentHash :: "(string set \<Rightarrow> string \<Rightarrow> string) \<Rightarrow> ConsistentHash" where
  "NewConsistentHash ow = \<lparr>owner = ow, nodes = {}\<rparr>"

definition ring_Add :: "string \<Rightarrow> ConsistentHash \<Rightarrow> ConsistentHash" where
  "ring_Add node h = h\<lparr>nodes := insert node (nodes h)\<rparr>"

definition ring_Remove :: "string \<Rightarrow> ConsistentHash \<Rightarrow> ConsistentHash" where
  "ring_Remove node h = h\<lparr>nodes := nodes h - {node}\<rparr>"

text \<open>\<^verbatim>\<open>Get\<close> returns a value and a flag; the value is meaningful only when the flag is set.\<close>

definition ring_Get :: "ConsistentHash \<Rightarrow> string \<Rightarrow> string \<times> bool" where
  "ring_Get h key = (if nodes h = {} then ([], False) else (owner h (nodes h) key, True))"

subsection \<open>The concurrent map\<close>

text \<open>
  \<^verbatim>\<open>cmap.ConcurrentMap[string, ServiceMetadata]\<close> as an association list: the map it
  denotes is \<open>map_of\<close> of the list. \<^verbatim>\<open>Get\<close> of a missing key returns the zero value
  and \<^verbatim>\<open>false\<close>.
\<close>

type_synonym cmap = "(string \<times> ServiceMetadata) list"

definition cmap_Get :: "cmap \<Rightarrow> string \<Rightarrow> ServiceMetadata \<times> bool" where
  "cmap_Get m k = (case map_of m k of None \<Rightarrow> (zeroServiceMetadata, False) | Some v \<Rightarrow> (v, True))"

subsection \<open>Registry\<close>

record Registry =
  hash :: ConsistentHash
  instances :: cmap

definition NewRegistry :: "ConsistentHash \<Rightarrow> Registry" where
  "NewRegistry h = \<lparr>hash = h, instances = []\<rparr>"

text \<open>The two updates are separate steps, map first, ring second.\<close>

definition RegisterService :: "ServiceMetadata \<Rightarrow> Registry \<Rightarrow> Registry" where
  "RegisterService service r =
     (let r1 = r\<lparr>instances := AList.update (IPAddress service) service (instances r)\<rparr>
      in r1\<lparr>hash := ring_Add (IPAddress service) (hash r1)\<rparr>)"

definition DeregisterService :: "string \<Rightarrow> Registry \<Rightarrow> Registry" where
  "DeregisterService ipAddress r =
     (let r1 = r\<lparr>instances := AList.delete ipAddress (instances r)\<rparr>
      in r1\<lparr>hash := ring_Remove ipAddress (hash r1)\<rparr>)"

text \<open>
  \<^verbatim>\<open>MatchService\<close> returns a pair, as the Go function does: the metadata (the zero value
  beside an error) and the error, \<open>None\<close> for \<^verbatim>\<open>nil\<close>. In the second failure the
  message is formatted from \<open>service\<close>, the value the failed lookup returned, not from
  \<open>serviceIP\<close>.
\<close>

definition MatchService :: "Registry \<Rightarrow> string \<Rightarrow> ServiceMetadata \<times> error option" where
  "MatchService r key =
     (case ring_Get (hash r) key of
        (serviceIP, ok) \<Rightarrow>
          if \<not> ok then (zeroServiceMetadata, Some (Errorf (''could not match service for key '' @ key)))
          else (case cmap_Get (instances r) serviceIP of
                  (service, ok') \<Rightarrow>
                    if \<not> ok' then
                      (zeroServiceMetadata, Some (Errorf (''could not find service with IP '' @ fmt_s service)))
                    else (service, None)))"

text \<open>
  \<^verbatim>\<open>IterBuffered\<close> yields the entries in an order of its own; \<open>iter\<close> is that order, a
  rearrangement of the entries.
\<close>

definition GetAllServices ::
  "(cmap \<Rightarrow> cmap) \<Rightarrow> Registry \<Rightarrow> ServiceMetadata list" where
  "GetAllServices iter r = map snd (iter (instances r))"

section \<open>internal/registrar\<close>

definition NamePrefix :: string where
  "NamePrefix = ''amazin-object-storage-node''"

definition MinioAccessKeyVarName :: string where
  "MinioAccessKeyVarName = ''MINIO_ACCESS_KEY''"

definition MinioSecretKeyVarName :: string where
  "MinioSecretKeyVarName = ''MINIO_SECRET_KEY''"

subsection \<open>The Docker client\<close>

text \<open>
  Of a listed container only the \<^verbatim>\<open>ID\<close> is read. Of an inspected container the
  code reads \<^verbatim>\<open>Name\<close>, \<^verbatim>\<open>State.Status\<close>, \<^verbatim>\<open>Config.Env\<close> and the
  \<^verbatim>\<open>IPAddress\<close> of the entries of \<^verbatim>\<open>NetworkSettings.Networks\<close>; the last is a Go
  map, kept here as the list of (network name, address) in the order the
  \<^verbatim>\<open>range\<close> statement visits it. The client is the pair of calls the registrar
  makes: listing under a name filter and inspecting by id, each of which may fail.
\<close>

record Container =
  ID :: string

record ContainerJSON =
  info_Name :: string
  info_Status :: string
  info_Env :: "string list"
  info_Networks :: "(string \<times> string) list"

record DockerClient =
  ContainerList :: "string \<Rightarrow> error + Container list"
  ContainerInspect :: "string \<Rightarrow> error + ContainerJSON"

text \<open>\<^verbatim>\<open>strings.SplitN(env, "=", 2)\<close>: cut at the first \<^verbatim>\<open>=\<close>, if there is one.\<close>

definition SplitN_eq_2 :: "string \<Rightarrow> string list" where
  "SplitN_eq_2 env =
     (case dropWhile (\<lambda>c. c \<noteq> CHR ''='') env of
        [] \<Rightarrow> [env]
      | _ # rest \<Rightarrow> [takeWhile (\<lambda>c. c \<noteq> CHR ''='') env, rest])"

text \<open>One round of the loop over the environment; the state is (accessKey, secretKey).\<close>

definition envStep :: "string \<times> string \<Rightarrow> string \<Rightarrow> string \<times> string" where
  "envStep keys env =
     (case SplitN_eq_2 env of
        [k, v] \<Rightarrow>
          if k = MinioAccessKeyVarName then (v, snd keys)
          else if k = MinioSecretKeyVarName then (fst keys, v)
          else keys
      | _ \<Rightarrow> keys)"

definition getServiceMetadataFromContainer :: "ContainerJSON \<Rightarrow> ServiceMetadata" where
  "getServiceMetadataFromContainer c =
     (let keys = foldl envStep ([], []) (info_Env c);
          ipAddress = (case info_Networks c of [] \<Rightarrow> [] | network # _ \<Rightarrow> snd network)
      in \<lparr>Name = info_Name c, IPAddress = ipAddress, AccessKey = fst keys, SecretKey = snd keys\<rparr>)"

definition isValidServiceMetadata :: "ServiceMetadata \<Rightarrow> bool" where
  "isValidServiceMetadata serviceMetadata \<longleftrightarrow>
     IPAddress serviceMetadata \<noteq> [] \<and> AccessKey serviceMetadata \<noteq> [] \<and> SecretKey serviceMetadata \<noteq> []"

subsection \<open>The registry as the registrar drives it\<close>

text \<open>
  The registry is shared and mutated in place; the registrar is its only writer. A
  \<open>world\<close> is the registry together with the list of the calls the registrar has made on
  it, oldest first.
\<close>

datatype call = RegisterCall ServiceMetadata | DeregisterCall string

type_synonym world = "Registry \<times> call list"

definition callRegister :: "ServiceMetadata \<Rightarrow> world \<Rightarrow> world" where
  "callRegister instance w = (RegisterService instance (fst w), snd w @ [RegisterCall instance])"

definition callDeregister :: "string \<Rightarrow> world \<Rightarrow> world" where
  "callDeregister i w = (DeregisterService i (fst w), snd w @ [DeregisterCall i])"

text \<open>
  Go leaves the order of a \<^verbatim>\<open>range\<close> over a map open, and so does the concurrent map
  for \<^verbatim>\<open>IterBuffered\<close>. An \<open>Order\<close> gives the three orders one pass meets; it is
  \<open>fair\<close> when each is a rearrangement that visits every entry once.
\<close>

record Order =
  iterBuffered :: "cmap \<Rightarrow> cmap"
  rangeNew :: "(string \<times> ServiceMetadata) list \<Rightarrow> (string \<times> ServiceMetadata) list"
  rangeCurrent :: "(string \<times> unit) list \<Rightarrow> (string \<times> unit) list"

definition fair :: "Order \<Rightarrow> bool" where
  "fair od \<longleftrightarrow>
     (\<forall>xs. mset (iterBuffered od xs) = mset xs) \<and>
     (\<forall>xs. mset (rangeNew od xs) = mset xs) \<and>
     (\<forall>xs. mset (rangeCurrent od xs) = mset xs)"

text \<open>The two maps of \<^verbatim>\<open>diffAndUpdateInstances\<close>, built entry by entry.\<close>

definition mkCurrentSet :: "ServiceMetadata list \<Rightarrow> (string \<times> unit) list" where
  "mkCurrentSet currentInstances = foldl (\<lambda>m i. AList.update (IPAddress i) () m) [] currentInstances"

definition mkNewSet :: "ServiceMetadata list \<Rightarrow> (string \<times> ServiceMetadata) list" where
  "mkNewSet newInstances = foldl (\<lambda>m i. AList.update (IPAddress i) i m) [] newInstances"

text \<open>The loop that identifies instances to be added, over the visited entries.\<close>

fun addLoop :: "(string \<times> unit) list \<Rightarrow> (string \<times> ServiceMetadata) list \<Rightarrow> world \<Rightarrow> world" where
  "addLoop currentSet [] w = w"
| "addLoop currentSet ((ip, instance) # rest) w =
     addLoop currentSet rest
       (if map_of currentSet ip = None then callRegister instance w else w)"

text \<open>The loop that identifies instances to be removed.\<close>

fun removeLoop :: "(string \<times> ServiceMetadata) list \<Rightarrow> (string \<times> unit) list \<Rightarrow> world \<Rightarrow> world" where
  "removeLoop newSet [] w = w"
| "removeLoop newSet ((i, u) # rest) w =
     removeLoop newSet rest
       (if map_of newSet i = None then callDeregister i w else w)"

definition diffAndUpdateInstances :: "Order \<Rightarrow> ServiceMetadata list \<Rightarrow> world \<Rightarrow> world" where
  "diffAndUpdateInstances od newInstances w =
     (let currentInstances = GetAllServices (iterBuffered od) (fst w);
          currentSet = mkCurrentSet currentInstances;
          newSet = mkNewSet newInstances;
          w1 = addLoop currentSet (rangeNew od newSet) w
      in removeLoop newSet (rangeCurrent od currentSet) w1)"

text \<open>
  The loop of \<^verbatim>\<open>refreshInstances\<close> over the listed containers; \<open>availableInstances\<close>
  is the slice built so far. A failed inspection returns at once.
\<close>

fun inspectLoop ::
  "(string \<Rightarrow> error + ContainerJSON) \<Rightarrow> Container list \<Rightarrow> ServiceMetadata list \<Rightarrow>
   error + ServiceMetadata list" where
  "inspectLoop inspect [] availableInstances = Inr availableInstances"
| "inspectLoop inspect (c # cs) availableInstances =
     (case inspect (ID c) of
        Inl err \<Rightarrow> Inl err
      | Inr info \<Rightarrow>
          if info_Status info \<noteq> ''running'' then inspectLoop inspect cs availableInstances
          else
            (let serviceMetadata = getServiceMetadataFromContainer info
             in if \<not> isValidServiceMetadata serviceMetadata
                then inspectLoop inspect cs availableInstances
                else inspectLoop inspect cs (availableInstances @ [serviceMetadata])))"

text \<open>\<^verbatim>\<open>refreshInstances\<close> returns its error (\<open>None\<close> for \<^verbatim>\<open>nil\<close>) and the world it leaves.\<close>

definition refreshInstances :: "Order \<Rightarrow> DockerClient \<Rightarrow> world \<Rightarrow> error option \<times> world" where
  "refreshInstances od dockerClient w =
     (case ContainerList dockerClient NamePrefix of
        Inl err \<Rightarrow> (Some err, w)
      | Inr containers \<Rightarrow>
          (case inspectLoop (ContainerInspect dockerClient) containers [] of
             Inl err \<Rightarrow> (Some err, w)
           | Inr availableInstances \<Rightarrow> (None, diffAndUpdateInstances od availableInstances w)))"

section \<open>internal/gateway\<close>

text \<open>
  Modelled from the spec: \<^verbatim>\<open>retry.Do\<close> belongs to the retry-go library, which is not
  part of the repository. The specification describes a bounded retry policy with a fixed
  number of attempts and a fixed delay between attempts: the function is called until it
  returns no error or the attempts are used up, the policy sleeps for the delay before
  every further attempt, and when all attempts failed their errors are handed back
  together. The retried function is a closure over variables of its caller: \<open>f n s\<close> is
  its call number \<open>n\<close> (from 0) on the captured variables \<open>s\<close>. The result carries the
  captured variables and the list of the delays slept, in milliseconds.
\<close>

record Config =
  attempts :: nat
  delay :: nat

fun retry_loop ::
  "nat \<Rightarrow> nat \<Rightarrow> nat \<Rightarrow> (nat \<Rightarrow> 's \<Rightarrow> error option \<times> 's) \<Rightarrow> 's \<Rightarrow> error list \<Rightarrow> nat list \<Rightarrow>
   error option \<times> 's \<times> nat list" where
  "retry_loop d 0 n f s errorLog slept = (Some (RetryErrors errorLog), s, slept)"
| "retry_loop d (Suc k) n f s errorLog slept =
     (case f n s of
        (None, s') \<Rightarrow> (None, s', slept)
      | (Some err, s') \<Rightarrow>
          if k = 0 then (Some (RetryErrors (errorLog @ [err])), s', slept)
          else retry_loop d k (Suc n) f s' (errorLog @ [err]) (slept @ [d]))"

definition retry_Do ::
  "(nat \<Rightarrow> 's \<Rightarrow> error option \<times> 's) \<Rightarrow> Config \<Rightarrow> 's \<Rightarrow> error option \<times> 's \<times> nat list" where
  "retry_Do f cfg s = retry_loop (delay cfg) (attempts cfg) 0 f s [] []"

text \<open>
  The options handed to \<^verbatim>\<open>minio.New\<close>: \<open>Creds\<close> holds the three arguments of
  \<^verbatim>\<open>credentials.NewStaticV4\<close> (access key, secret key, session token). The
  constructor itself belongs to the client library and is a parameter; it may fail.
\<close>

record Options =
  Creds :: "string \<times> string \<times> string"
  Secure :: bool

text \<open>
  The closure retried by \<^verbatim>\<open>getMatchingInstance\<close>. It assigns both results of
  \<^verbatim>\<open>MatchService\<close> to the captured \<open>instance\<close> and \<open>err\<close>. The registry is shared
  with the registrar and may change between attempts: \<open>registry n\<close> is the registry as
  attempt \<open>n\<close> reads it.
\<close>

definition matchAttempt ::
  "(nat \<Rightarrow> Registry) \<Rightarrow> string \<Rightarrow> nat \<Rightarrow> ServiceMetadata \<times> error option \<Rightarrow>
   error option \<times> (ServiceMetadata \<times> error option)" where
  "matchAttempt registry id' n s =
     (case MatchService (registry n) id' of
        (instance, err) \<Rightarrow>
          (case err of
             Some e \<Rightarrow> (Some (Wrap ''failed to get minio instance for object id'' e), (instance, err))
           | None \<Rightarrow> (None, (instance, err))))"

text \<open>
  \<^verbatim>\<open>getMatchingInstance\<close> returns the client or the error; the model adds the
  delays slept on the way, in milliseconds.
\<close>

definition getMatchingInstance ::
  "(string \<Rightarrow> Options \<Rightarrow> error + 'c) \<Rightarrow> (nat \<Rightarrow> Registry) \<Rightarrow> string \<Rightarrow> (error + 'c) \<times> nat list" where
  "getMatchingInstance minio_New registry id' =
     (case retry_Do (matchAttempt registry id') \<lparr>attempts = 3, delay = 300\<rparr> (zeroServiceMetadata, None) of
        (Some err, s, slept) \<Rightarrow> (Inl err, slept)
      | (None, (instance, e), slept) \<Rightarrow>
          (let endpoint = IPAddress instance @ '':9000''
           in case minio_New endpoint
                     \<lparr>Creds = (AccessKey instance, SecretKey instance, []), Secure = False\<rparr> of
                Inl err \<Rightarrow> (Inl (Wrap ''failed to create minio client'' err), slept)
              | Inr minioInstance \<Rightarrow> (Inr minioInstance, slept)))"

section \<open>internal/app\<close>

text \<open>
  The regular expression \<^verbatim>\<open>^[a-zA-Z0-9]+$\<close>: the class by its three ranges of byte
  values, one or more members of it, anchored at both ends of the text. A string is its
  bytes, as \<^verbatim>\<open>len\<close> counts them; a byte outside ASCII is in no range.
\<close>

definition inClass :: "char \<Rightarrow> bool" where
  "inClass c \<longleftrightarrow>
     (of_char CHR ''a'' \<le> (of_char c :: nat) \<and> (of_char c :: nat) \<le> of_char CHR ''z'') \<or>
     (of_char CHR ''A'' \<le> (of_char c :: nat) \<and> (of_char c :: nat) \<le> of_char CHR ''Z'') \<or>
     (of_char CHR ''0'' \<le> (of_char c :: nat) \<and> (of_char c :: nat) \<le> of_char CHR ''9'')"

fun matchPlus :: "string \<Rightarrow> bool" where
  "matchPlus [] = False"
| "matchPlus [c] = inClass c"
| "matchPlus (c # cs) = (inClass c \<and> matchPlus cs)"

definition isAlphanumeric :: "string \<Rightarrow> bool" where
  "isAlphanumeric s = matchPlus s"

definition validateID :: "string \<Rightarrow> error option" where
  "validateID id' =
     (if length id' > 32 then Some (Errorf ''id is too long'')
      else if \<not> isAlphanumeric id' then Some (Errorf ''id contains invalid characters'')
      else None)"

text \<open>
  The words of the interface description: an id of 1 to 32 characters, each an ASCII
  letter or digit.
\<close>

definition alphanumerics :: string where
  "alphanumerics = ''abcdefghijklmnopqrstuvwxyzABCDEFGHIJKLMNOPQRSTUVWXYZ0123456789''"

definition wellFormedID :: "string \<Rightarrow> bool" where
  "wellFormedID s \<longleftrightarrow> 1 \<le> length s \<and> length s \<le> 32 \<and> list_all (\<lambda>c. c \<in> set alphanumerics) s"

section \<open>Vocabulary of the properties\<close>

text \<open>How often a list of calls registers, or deregisters, a given identity.\<close>

definition registerCalls :: "string \<Rightarrow> call list \<Rightarrow> nat" where
  "registerCalls ip cs =
     length (filter (\<lambda>c. case c of RegisterCall m \<Rightarrow> IPAddress m = ip | DeregisterCall i \<Rightarrow> False) cs)"

definition deregisterCalls :: "string \<Rightarrow> call list \<Rightarrow> nat" where
  "deregisterCalls ip cs =
     length (filter (\<lambda>c. case c of RegisterCall m \<Rightarrow> False | DeregisterCall i \<Rightarrow> i = ip) cs)"

text \<open>Every entry is stored under the identity of its value.\<close>

definition keyed :: "(string \<times> ServiceMetadata) list \<Rightarrow> bool" where
  "keyed xs \<longleftrightarrow> list_all (\<lambda>e. IPAddress (snd e) = fst e) xs"

text \<open>
  Attempt \<open>n\<close> of a resolution fails when \<open>MatchService\<close> returns an error on the
  registry as that attempt reads it; \<open>k\<close> is the first success when it is one of the
  three attempts, succeeds, and every earlier attempt fails.
\<close>

definition attemptFails :: "(nat \<Rightarrow> Registry) \<Rightarrow> string \<Rightarrow> nat \<Rightarrow> bool" where
  "attemptFails registry id' n \<longleftrightarrow> snd (MatchService (registry n) id') \<noteq> None"

definition firstSuccess :: "(nat \<Rightarrow> Registry) \<Rightarrow> string \<Rightarrow> nat \<Rightarrow> bool" where
  "firstSuccess registry id' k \<longleftrightarrow>
     k < 3 \<and> \<not> attemptFails registry id' k \<and> (\<forall>n<k. attemptFails registry id' n)"

text \<open>The ASCII white space characters: space, tab, line feed, vertical tab, form feed, carriage return.\<close>

definition whitespace :: string where
  "whitespace = [CHR 0x20, CHR 0x09, CHR 0x0A, CHR 0x0B, CHR 0x0C, CHR 0x0D]"

subsection \<open>Sample values\<close>

definition id32 :: string where
  "id32 = ''0123456789abcdefghijklmnopqrstuv''"

definition info1 :: ContainerJSON where
  "info1 = \<lparr>info_Name = ''/amazin-object-storage-node-1'', info_Status = ''running'',
            info_Env = [''PATH=/usr/bin'', ''MINIO_ACCESS_KEY=ring'', ''MINIO_SECRET_KEY=treepotato''],
            info_Networks = [(''amazin-object-storage'', ''10.0.0.1'')]\<rparr>"

definition info2 :: ContainerJSON where
  "info2 = \<lparr>info_Name = ''/amazin-object-storage-node-2'', info_Status = ''exited'',
            info_Env = [''MINIO_ACCESS_KEY=maglev'', ''MINIO_SECRET_KEY=baconpapaya''],
            info_Networks = [(''amazin-object-storage'', ''10.0.0.2'')]\<rparr>"

definition info3 :: ContainerJSON where
  "info3 = \<lparr>info_Name = ''/amazin-object-storage-node-3'', info_Status = ''running'',
            info_Env = [''MINIO_ACCESS_KEY=rendezvous'', ''MINIO_SECRET_KEY''],
            info_Networks = [(''amazin-object-storage'', ''10.0.0.3'')]\<rparr>"

definition docker1 :: DockerClient where
  "docker1 =
     \<lparr>ContainerList = (\<lambda>name. Inr [\<lparr>ID = ''c1''\<rparr>, \<lparr>ID = ''c2''\<rparr>, \<lparr>ID = ''c3''\<rparr>]),
      ContainerInspect = (\<lambda>i. if i = ''c1'' then Inr info1 else if i = ''c2'' then Inr info2
                             else if i = ''c3'' then Inr info3
                             else Inl (External ''No such container''))\<rparr>"

definition docker2 :: DockerClient where
  "docker2 =
     \<lparr>ContainerList = (\<lambda>name. Inr [\<lparr>ID = ''c1''\<rparr>, \<lparr>ID = ''c4''\<rparr>]),
      ContainerInspect = (\<lambda>i. if i = ''c1'' then Inr info1
                             else Inl (External ''No such container''))\<rparr>"

definition dockerDown :: DockerClient where
  "dockerDown =
     \<lparr>ContainerList = (\<lambda>name. Inl (External ''Cannot connect to the Docker daemon'')),
      ContainerInspect = (\<lambda>i. Inl (External ''Cannot connect to the Docker daemon''))\<rparr>"

definition node1 :: ServiceMetadata where
  "node1 = \<lparr>Name = ''/amazin-object-storage-node-1'', IPAddress = ''10.0.0.1'',
            AccessKey = ''ring'', SecretKey = ''treepotato''\<rparr>"

definition node2 :: ServiceMetadata where
  "node2 = \<lparr>Name = ''/amazin-object-storage-node-2'', IPAddress = ''10.0.0.2'',
            AccessKey = ''maglev'', SecretKey = ''baconpapaya''\<rparr>"

definition node2' :: ServiceMetadata where
  "node2' = \<lparr>Name = ''/amazin-object-storage-node-2'', IPAddress = ''10.0.0.2'',
             AccessKey = ''rotated'', SecretKey = ''changed''\<rparr>"

definition node3 :: ServiceMetadata where
  "node3 = \<lparr>Name = ''/amazin-object-storage-node-3'', IPAddress = ''10.0.0.3'',
            AccessKey = ''rendezvous'', SecretKey = ''bluegreen''\<rparr>"

definition firstOwner :: "string set \<Rightarrow> string \<Rightarrow> string" where
  "firstOwner ns key = (if ''10.0.0.1'' \<in> ns then ''10.0.0.1'' else ''10.0.0.2'')"

definition registry12 :: Registry where
  "registry12 = RegisterService node2 (RegisterService node1 (NewRegistry (NewConsistentHash firstOwner)))"

definition registryRingOnly :: Registry where
  "registryRingOnly = \<lparr>hash = \<lparr>owner = firstOwner, nodes = {''10.0.0.1''}\<rparr>, instances = []\<rparr>"

definition order1 :: Order where
  "order1 = \<lparr>iterBuffered = rev, rangeNew = rev, rangeCurrent = (\<lambda>xs. xs)\<rparr>"

definition views :: "nat \<Rightarrow> Registry" where
  "views n = (if n = 0 then registryRingOnly else registry12)"

definition recordingNew :: "string \<Rightarrow> Options \<Rightarrow> error + string \<times> Options" where
  "recordingNew endpoint opts = Inr (endpoint, opts)"

section \<open>Properties of the registry\<close>

text \<open>
  C7. Deregistering an identity twice in a row leaves the registry (map and ring) as
  deregistering it once does, and registering the same metadata twice leaves it as
  registering once does, from every registry state.
\<close>

theorem Registry_idempotent:
  "DeregisterService x (DeregisterService x r) = DeregisterService x r \<and>
   RegisterService m (RegisterService m r) = RegisterService m r"
  by (simp add: DeregisterService_def RegisterService_def ring_Add_def ring_Remove_def
      AList.delete_idem Let_def)

text \<open>
  C2. \<open>MatchService\<close> returns an error exactly when the ring has no owner for the key or
  names an owner that the map has no entry for; the error is of the one class the
  registry has; the ring has no owner exactly when it is empty; and on a new registry
  over an empty ring every key fails.
\<close>

theorem MatchService_fails_iff:
  "((\<exists>e. snd (MatchService r key) = Some e) \<longleftrightarrow>
      (snd (ring_Get (hash r) key) = False \<or>
       (\<exists>ip. ring_Get (hash r) key = (ip, True) \<and> map_of (instances r) ip = None))) \<and>
   ((\<exists>e. snd (MatchService r key) = Some e) \<longleftrightarrow> (\<exists>msg. snd (MatchService r key) = Some (Errorf msg))) \<and>
   (snd (ring_Get (hash r) key) = False \<longleftrightarrow> nodes (hash r) = {}) \<and>
   (\<exists>msg. MatchService (NewRegistry (NewConsistentHash ow)) key = (zeroServiceMetadata, Some (Errorf msg)))"
  by (auto simp add: MatchService_def ring_Get_def cmap_Get_def NewRegistry_def NewConsistentHash_def
      split: option.splits prod.splits if_splits)

theorem MatchService_fails_iff_witness:
  "ring_Get (hash registryRingOnly) ''k1'' = (''10.0.0.1'', True) \<and>
   map_of (instances registryRingOnly) ''10.0.0.1'' = None \<and>
   (\<exists>e. snd (MatchService registryRingOnly ''k1'') = Some e) \<and>
   nodes (hash (NewRegistry (NewConsistentHash firstOwner))) = {} \<and>
   (\<exists>e. snd (MatchService (NewRegistry (NewConsistentHash firstOwner)) ''k1'') = Some e) \<and>
   snd (MatchService registry12 ''k1'') = None"
  using MatchService_fails_iff [of registryRingOnly "''k1''"]
    MatchService_fails_iff [of "NewRegistry (NewConsistentHash firstOwner)" "''k1''"]
    MatchService_fails_iff [of registry12 "''k1''"]
  by (simp add: registryRingOnly_def ring_Get_def firstOwner_def NewRegistry_def
      NewConsistentHash_def registry12_def RegisterService_def ring_Add_def Let_def
      node1_def node2_def)

text \<open>
  C4. When the ring names an owner and the map has no entry for it, \<open>MatchService\<close>
  returns an error of the registry's one class whose message is built from the zero value
  that the failed lookup returned: it shows empty fields, the address among them, and not
  the identity that was looked up.
\<close>

theorem MatchService_metadata_missing:
  assumes "ring_Get (hash r) key = (ip, True)" and "map_of (instances r) ip = None"
  shows "MatchService r key =
           (zeroServiceMetadata, Some (Errorf (''could not find service with IP '' @ fmt_s zeroServiceMetadata))) \<and>
         ''could not find service with IP '' @ fmt_s zeroServiceMetadata = ''could not find service with IP {   }'' \<and>
         IPAddress zeroServiceMetadata = []"
  using assms by (simp add: MatchService_def cmap_Get_def fmt_s_def zeroServiceMetadata_def)

theorem MatchService_metadata_missing_witness:
  "ring_Get (hash registryRingOnly) ''k1'' = (''10.0.0.1'', True) \<and>
   map_of (instances registryRingOnly) ''10.0.0.1'' = None \<and>
   MatchService registryRingOnly ''k1'' =
     (zeroServiceMetadata, Some (Errorf ''could not find service with IP {   }''))"
proof -
  have 1: "ring_Get (hash registryRingOnly) ''k1'' = (''10.0.0.1'', True)"
    by (simp add: registryRingOnly_def ring_Get_def firstOwner_def)
  have 2: "map_of (instances registryRingOnly) ''10.0.0.1'' = None"
    by (simp add: registryRingOnly_def)
  show ?thesis using MatchService_metadata_missing [OF 1 2] 1 2 by simp
qed

section \<open>Properties of the reconciliation\<close>

lemma fair_order1: "fair order1"
  by (simp add: fair_def order1_def)

lemma instances_registry12: "instances registry12 = [(''10.0.0.1'', node1), (''10.0.0.2'', node2)]"
  by (simp add: registry12_def RegisterService_def NewRegistry_def node1_def node2_def Let_def)



lemma keyed_update: "keyed m \<Longrightarrow> keyed (AList.update (IPAddress i) i m)"
  by (induction m) (auto simp: keyed_def)

lemma mkNewSet_aux:
  "keyed m \<Longrightarrow> distinct (map fst m) \<Longrightarrow>
   keyed (foldl (\<lambda>m i. AList.update (IPAddress i) i m) m is) \<and>
   distinct (map fst (foldl (\<lambda>m i. AList.update (IPAddress i) i m) m is)) \<and>
   fst ` set (foldl (\<lambda>m i. AList.update (IPAddress i) i m) m is) = fst ` set m \<union> IPAddress ` set is"
proof (induction "is" arbitrary: m)
  case Nil
  then show ?case by simp
next
  case (Cons i "is")
  have "keyed (AList.update (IPAddress i) i m)" using Cons.prems by (simp add: keyed_update)
  moreover have "distinct (map fst (AList.update (IPAddress i) i m))"
    using Cons.prems by (simp add: distinct_update)
  ultimately show ?case
    using Cons.IH [of "AList.update (IPAddress i) i m"] by (auto simp: dom_update)
qed

lemma mkNewSet_props:
  "keyed (mkNewSet new) \<and> distinct (map fst (mkNewSet new)) \<and>
   fst ` set (mkNewSet new) = IPAddress ` set new"
  using mkNewSet_aux [of "[]" new] by (simp add: mkNewSet_def keyed_def)

lemma mkCurrentSet_aux:
  "distinct (map fst m) \<Longrightarrow>
   distinct (map fst (foldl (\<lambda>m i. AList.update (IPAddress i) () m) m is)) \<and>
   fst ` set (foldl (\<lambda>m i. AList.update (IPAddress i) () m) m is) = fst ` set m \<union> IPAddress ` set is"
proof (induction "is" arbitrary: m)
  case Nil
  then show ?case by simp
next
  case (Cons i "is")
  have "distinct (map fst (AList.update (IPAddress i) () m))"
    using Cons.prems by (simp add: distinct_update)
  then show ?case
    using Cons.IH [of "AList.update (IPAddress i) () m"] by (auto simp: dom_update)
qed

lemma mkCurrentSet_props:
  "distinct (map fst (mkCurrentSet cur)) \<and> fst ` set (mkCurrentSet cur) = IPAddress ` set cur"
  using mkCurrentSet_aux [of "[]" cur] by (simp add: mkCurrentSet_def)

lemma map_of_None_iff: "map_of xs k = None \<longleftrightarrow> k \<notin> fst ` set xs"
  by (simp add: map_of_eq_None_iff)





lemma registerCalls_dereg [simp]:
  "registerCalls ip (map (\<lambda>e. DeregisterCall (f e)) xs) = 0"
  by (simp add: registerCalls_def)

lemma deregisterCalls_reg [simp]:
  "deregisterCalls ip (map (\<lambda>e. RegisterCall (f e)) xs) = 0"
  by (simp add: deregisterCalls_def)

lemma perm_keyed:
  assumes "mset ys = mset xs"
  shows "keyed ys = keyed xs"
proof -
  have "set ys = set xs" using assms by (rule mset_eq_setD)
  then show ?thesis by (simp add: keyed_def list_all_iff)
qed




lemma callRegister_frame:
  "IPAddress v \<noteq> ip \<Longrightarrow>
   map_of (instances (fst (callRegister v w))) ip = map_of (instances (fst w)) ip \<and>
   (ip \<in> nodes (hash (fst (callRegister v w))) \<longleftrightarrow> ip \<in> nodes (hash (fst w)))"
  by (simp add: callRegister_def RegisterService_def Let_def ring_Add_def update_conv')

lemma callDeregister_frame:
  "i \<noteq> ip \<Longrightarrow>
   map_of (instances (fst (callDeregister i w))) ip = map_of (instances (fst w)) ip \<and>
   (ip \<in> nodes (hash (fst (callDeregister i w))) \<longleftrightarrow> ip \<in> nodes (hash (fst w)))"
  by (simp add: callDeregister_def DeregisterService_def Let_def ring_Remove_def delete_conv')

lemma addLoop_frame:
  "keyed xs \<Longrightarrow> map_of cur ip \<noteq> None \<Longrightarrow>
   map_of (instances (fst (addLoop cur xs w))) ip = map_of (instances (fst w)) ip \<and>
   (ip \<in> nodes (hash (fst (addLoop cur xs w))) \<longleftrightarrow> ip \<in> nodes (hash (fst w)))"
proof (induction cur xs w rule: addLoop.induct)
  case (1 currentSet w)
  then show ?case by simp
next
  case (2 currentSet k inst rest w)
  have kv: "IPAddress inst = k" and kr: "keyed rest"
    using "2.prems"(1) by (simp_all add: keyed_def)
  show ?case
  proof (cases "map_of currentSet k = None")
    case True
    then have "IPAddress inst \<noteq> ip" using "2.prems"(2) kv by auto
    then show ?thesis
      using "2.IH" [OF kr "2.prems"(2)] True callRegister_frame [of inst ip w] by simp
  next
    case False
    then have e: "(if map_of currentSet k = None then callRegister inst w else w) = w"
      by auto
    show ?thesis using "2.IH" [OF kr "2.prems"(2)] by (simp add: e)
  qed
qed

lemma removeLoop_frame:
  "map_of new ip \<noteq> None \<Longrightarrow>
   map_of (instances (fst (removeLoop new ys w))) ip = map_of (instances (fst w)) ip \<and>
   (ip \<in> nodes (hash (fst (removeLoop new ys w))) \<longleftrightarrow> ip \<in> nodes (hash (fst w)))"
proof (induction new ys w rule: removeLoop.induct)
  case (1 newSet w)
  then show ?case by simp
next
  case (2 newSet i u rest w)
  show ?case
  proof (cases "map_of newSet i = None")
    case True
    then have "i \<noteq> ip" using "2.prems" by auto
    then show ?thesis
      using "2.IH" [OF "2.prems"] True callDeregister_frame [of i ip w] by simp
  next
    case False
    then have e: "(if map_of newSet i = None then callDeregister i w else w) = w"
      by auto
    show ?thesis using "2.IH" [OF "2.prems"] by (simp add: e)
  qed
qed

text \<open>
  C9. Whatever the (fair) orders of iteration, for an identity that is both among the
  registry's services and among the new instances, one pass of
  \<open>diffAndUpdateInstances\<close> leaves the map's entry for that identity, and its
  membership of the ring, as they were: the new metadata for it is not stored, whether or
  not it differs from the old.
\<close>

theorem diffAndUpdateInstances_frame:
  assumes "fair od"
    and "ip \<in> IPAddress ` set (GetAllServices (iterBuffered od) r)"
    and "ip \<in> IPAddress ` set newInstances"
  shows "map_of (instances (fst (diffAndUpdateInstances od newInstances (r, log)))) ip =
           map_of (instances r) ip \<and>
         (ip \<in> nodes (hash (fst (diffAndUpdateInstances od newInstances (r, log)))) \<longleftrightarrow>
           ip \<in> nodes (hash r))"
proof -
  define cur where "cur = mkCurrentSet (GetAllServices (iterBuffered od) r)"
  define new where "new = mkNewSet newInstances"
  define xs where "xs = rangeNew od new"
  define ys where "ys = rangeCurrent od cur"
  define w1 where "w1 = addLoop cur xs (r, log)"
  have px: "mset xs = mset new"
    using assms(1) by (simp add: fair_def xs_def)
  have kx: "keyed xs"
    using mkNewSet_props [of newInstances] perm_keyed [OF px] by (simp add: new_def)
  have curS: "map_of cur ip \<noteq> None"
    using mkCurrentSet_props [of "GetAllServices (iterBuffered od) r"] assms(2)
    by (simp add: map_of_None_iff cur_def)
  have newS: "map_of new ip \<noteq> None"
    using mkNewSet_props [of newInstances] assms(3) by (simp add: map_of_None_iff new_def)
  have d: "diffAndUpdateInstances od newInstances (r, log) = removeLoop new ys w1"
    by (simp add: diffAndUpdateInstances_def Let_def cur_def new_def xs_def ys_def w1_def)
  show ?thesis
    using addLoop_frame [OF kx curS, of "(r, log)"] removeLoop_frame [OF newS, of ys w1]
    by (simp add: d w1_def)
qed

theorem diffAndUpdateInstances_frame_witness:
  "fair order1 \<and> ''10.0.0.2'' \<in> IPAddress ` set (GetAllServices (iterBuffered order1) registry12) \<and>
   ''10.0.0.2'' \<in> IPAddress ` set [node2', node3] \<and> node2' \<noteq> node2 \<and>
   map_of (instances (fst (diffAndUpdateInstances order1 [node2', node3] (registry12, [])))) ''10.0.0.2''
     = Some node2"
proof -
  have 2: "''10.0.0.2'' \<in> IPAddress ` set (GetAllServices (iterBuffered order1) registry12)"
    by (simp add: GetAllServices_def instances_registry12 order1_def node1_def node2_def)
  have 3: "''10.0.0.2'' \<in> IPAddress ` set [node2', node3]"
    by (simp add: node2'_def)
  have 4: "node2' \<noteq> node2" by (simp add: node2'_def node2_def)
  show ?thesis
    using diffAndUpdateInstances_frame [OF fair_order1 2 3, of "[]"] fair_order1 2 3 4
    by (simp add: instances_registry12)
qed

lemma inspectLoop_fail:
  "c \<in> set cs \<Longrightarrow> inspect (ID c) = Inl err \<Longrightarrow> \<exists>e. inspectLoop inspect cs acc = Inl e"
proof (induction cs arbitrary: acc)
  case Nil
  then show ?case by simp
next
  case (Cons c' cs)
  show ?case
  proof (cases "inspect (ID c')")
    case (Inl e)
    then show ?thesis by simp
  next
    case (Inr info)
    then have "c \<in> set cs" using Cons.prems by auto
    then have "\<And>acc. \<exists>e. inspectLoop inspect cs acc = Inl e"
      using Cons.IH Cons.prems(2) by blast
    then show ?thesis using Inr by (simp add: Let_def)
  qed
qed

text \<open>
  C5. When listing the containers fails, or when inspecting any one of the listed
  containers fails, \<open>refreshInstances\<close> returns an error and the world it leaves is
  the world it found: the registry (map and ring) is unchanged and no call has been made
  on it.
\<close>

theorem refreshInstances_failure:
  "(ContainerList dockerClient NamePrefix = Inl err \<longrightarrow>
      refreshInstances od dockerClient w = (Some err, w)) \<and>
   (ContainerList dockerClient NamePrefix = Inr containers \<and> c \<in> set containers \<and>
    ContainerInspect dockerClient (ID c) = Inl err' \<longrightarrow>
      (\<exists>e. refreshInstances od dockerClient w = (Some e, w)))"
proof -
  have "\<exists>e. refreshInstances od dockerClient w = (Some e, w)"
    if l: "ContainerList dockerClient NamePrefix = Inr containers" and m: "c \<in> set containers"
      and i: "ContainerInspect dockerClient (ID c) = Inl err'"
  proof -
    obtain e where "inspectLoop (ContainerInspect dockerClient) containers [] = Inl e"
      using inspectLoop_fail [of c containers "ContainerInspect dockerClient" err' "[]"] m i by blast
    then show ?thesis using l by (simp add: refreshInstances_def)
  qed
  then show ?thesis by (simp add: refreshInstances_def)
qed

theorem refreshInstances_failure_witness:
  "ContainerList dockerDown NamePrefix = Inl (External ''Cannot connect to the Docker daemon'') \<and>
   refreshInstances order1 dockerDown (registry12, []) =
     (Some (External ''Cannot connect to the Docker daemon''), (registry12, [])) \<and>
   ContainerList docker2 NamePrefix = Inr [\<lparr>ID = ''c1''\<rparr>, \<lparr>ID = ''c4''\<rparr>] \<and>
   ContainerInspect docker2 ''c4'' = Inl (External ''No such container'') \<and>
   (\<exists>e. refreshInstances order1 docker2 (registry12, []) = (Some e, (registry12, [])))"
  using refreshInstances_failure [of docker2 "External ''x''" order1 "(registry12, [])"
      "[\<lparr>ID = ''c1''\<rparr>, \<lparr>ID = ''c4''\<rparr>]" "\<lparr>ID = ''c4''\<rparr>" "External ''No such container''"]
    refreshInstances_failure [of dockerDown "External ''Cannot connect to the Docker daemon''"
      order1 "(registry12, [])"]
  by (simp add: docker2_def dockerDown_def)

lemma inspectLoop_ok:
  "map (\<lambda>c. inspect (ID c)) cs = map Inr infos \<Longrightarrow>
   inspectLoop inspect cs acc =
     Inr (acc @ map getServiceMetadataFromContainer
       (filter (\<lambda>info. info_Status info = ''running'' \<and>
                  isValidServiceMetadata (getServiceMetadataFromContainer info)) infos))"
proof (induction cs arbitrary: infos acc)
  case Nil
  then show ?case by simp
next
  case (Cons c cs)
  then obtain info rest where i: "infos = info # rest" "inspect (ID c) = Inr info"
    "map (\<lambda>c. inspect (ID c)) cs = map Inr rest"
    by (cases infos) auto
  show ?case using Cons.IH [OF i(3)] i(1) i(2) by (simp add: Let_def)
qed

text \<open>
  C6. When listing and every inspection succeed, the pass returns no error and hands
  \<open>diffAndUpdateInstances\<close> the metadata of exactly those inspected containers, in
  order, whose status is \<^verbatim>\<open>running\<close> and whose derived metadata has a non-empty
  address, access key and secret key; the others are skipped.
\<close>

theorem refreshInstances_keeps:
  assumes "ContainerList dockerClient NamePrefix = Inr containers"
    and "map (\<lambda>c. ContainerInspect dockerClient (ID c)) containers = map Inr infos"
  shows "refreshInstances od dockerClient w =
           (None, diffAndUpdateInstances od
              (map getServiceMetadataFromContainer
                (filter (\<lambda>info. info_Status info = ''running'' \<and>
                           IPAddress (getServiceMetadataFromContainer info) \<noteq> [] \<and>
                           AccessKey (getServiceMetadataFromContainer info) \<noteq> [] \<and>
                           SecretKey (getServiceMetadataFromContainer info) \<noteq> []) infos)) w)"
  using assms(1) inspectLoop_ok [OF assms(2), of "[]"]
  by (simp add: refreshInstances_def isValidServiceMetadata_def)

lemma meta_info1: "getServiceMetadataFromContainer info1 = node1"
  by (simp add: getServiceMetadataFromContainer_def info1_def node1_def envStep_def SplitN_eq_2_def
      MinioAccessKeyVarName_def MinioSecretKeyVarName_def Let_def)

lemma meta_info3: "getServiceMetadataFromContainer info3 =
   \<lparr>Name = ''/amazin-object-storage-node-3'', IPAddress = ''10.0.0.3'', AccessKey = ''rendezvous'', SecretKey = []\<rparr>"
  by (simp add: getServiceMetadataFromContainer_def info3_def envStep_def SplitN_eq_2_def
      MinioAccessKeyVarName_def MinioSecretKeyVarName_def Let_def)

theorem refreshInstances_keeps_witness:
  "ContainerList docker1 NamePrefix = Inr [\<lparr>ID = ''c1''\<rparr>, \<lparr>ID = ''c2''\<rparr>, \<lparr>ID = ''c3''\<rparr>] \<and>
   map (\<lambda>c. ContainerInspect docker1 (ID c)) [\<lparr>ID = ''c1''\<rparr>, \<lparr>ID = ''c2''\<rparr>, \<lparr>ID = ''c3''\<rparr>] =
     map Inr [info1, info2, info3] \<and>
   refreshInstances order1 docker1 (NewRegistry (NewConsistentHash firstOwner), []) =
     (None, diffAndUpdateInstances order1 [node1] (NewRegistry (NewConsistentHash firstOwner), []))"
proof -
  have 1: "ContainerList docker1 NamePrefix = Inr [\<lparr>ID = ''c1''\<rparr>, \<lparr>ID = ''c2''\<rparr>, \<lparr>ID = ''c3''\<rparr>]"
    by (simp add: docker1_def)
  have 2: "map (\<lambda>c. ContainerInspect docker1 (ID c)) [\<lparr>ID = ''c1''\<rparr>, \<lparr>ID = ''c2''\<rparr>, \<lparr>ID = ''c3''\<rparr>] =
     map Inr [info1, info2, info3]"
    by (simp add: docker1_def)
  have 3: "info_Status info1 = ''running''" "info_Status info2 = ''exited''" "info_Status info3 = ''running''"
    by (simp_all add: info1_def info2_def info3_def)
  show ?thesis
    using refreshInstances_keeps [OF 1 2, of order1 "(NewRegistry (NewConsistentHash firstOwner), [])"] 1 2
    by (simp add: 3 meta_info1 meta_info3 node1_def)
qed

section \<open>Properties of the request validation\<close>

lemma inClass_iff: "inClass c \<longleftrightarrow> c \<in> set alphanumerics"
  by (cases c) (simp add: inClass_def alphanumerics_def)

lemma matchPlus_iff: "matchPlus s \<longleftrightarrow> s \<noteq> [] \<and> list_all inClass s"
  by (induction s rule: matchPlus.induct) simp_all

lemma validateID_iff: "validateID s = None \<longleftrightarrow> wellFormedID s"
proof -
  have "inClass = (\<lambda>c. c \<in> set alphanumerics)"
    by (rule ext) (rule inClass_iff)
  then have "list_all inClass s = list_all (\<lambda>c. c \<in> set alphanumerics) s"
    by simp
  then show ?thesis
    by (cases s) (auto simp add: validateID_def isAlphanumeric_def matchPlus_iff wellFormedID_def)
qed

text \<open>
  C8. \<open>validateID\<close> accepts an id exactly when it has 1 to 32 characters, all of them
  ASCII letters or digits. So an id of 32 letters and digits is accepted, an id of length
  33 is rejected, an id with a hyphen, a white space character or any other character
  that is not a letter or digit is rejected, and so is the empty id.
\<close>

theorem validateID_accepts_iff:
  "(validateID s = None \<longleftrightarrow> wellFormedID s) \<and>
   (length s = 32 \<and> list_all (\<lambda>c. c \<in> set alphanumerics) s \<longrightarrow> validateID s = None) \<and>
   (length s = 33 \<longrightarrow> validateID s \<noteq> None) \<and>
   (CHR ''-'' \<in> set s \<longrightarrow> validateID s \<noteq> None) \<and>
   ((\<exists>c \<in> set s. c \<in> set whitespace) \<longrightarrow> validateID s \<noteq> None) \<and>
   ((\<exists>c \<in> set s. c \<notin> set alphanumerics) \<longrightarrow> validateID s \<noteq> None) \<and>
   validateID [] \<noteq> None"
proof -
  have bad: "validateID s \<noteq> None" if "c \<in> set s" and "c \<notin> set alphanumerics" for c
    using that by (auto simp add: validateID_iff wellFormedID_def list_all_iff)
  have dash: "CHR ''-'' \<notin> set alphanumerics"
    by (simp add: alphanumerics_def)
  have ws: "c \<notin> set alphanumerics" if "c \<in> set whitespace" for c
    using that by (auto simp add: alphanumerics_def whitespace_def)
  have e: "validateID [] \<noteq> None"
    by (simp add: validateID_iff wellFormedID_def)
  have l33: "length s = 33 \<longrightarrow> validateID s \<noteq> None"
    by (simp add: validateID_iff wellFormedID_def)
  have l32: "length s = 32 \<and> list_all (\<lambda>c. c \<in> set alphanumerics) s \<longrightarrow> validateID s = None"
    by (simp add: validateID_iff wellFormedID_def)
  show ?thesis using bad dash ws e l33 l32 validateID_iff by blast
qed

theorem validateID_accepts_iff_witness:
  "length id32 = 32 \<and> validateID id32 = None \<and>
   length (id32 @ ''w'') = 33 \<and> validateID (id32 @ ''w'') \<noteq> None \<and>
   validateID ''abc-123'' \<noteq> None \<and> validateID ''abc 123'' \<noteq> None \<and>
   validateID ''abc123'' = None"
  using validateID_accepts_iff [of id32] validateID_accepts_iff [of "id32 @ ''w''"]
    validateID_accepts_iff [of "''abc-123''"] validateID_accepts_iff [of "''abc 123''"]
    validateID_accepts_iff [of "''abc123''"]
  by (simp add: id32_def alphanumerics_def whitespace_def wellFormedID_def)

section \<open>Properties of the resolution\<close>

lemma retry_Do_3:
  "retry_Do f \<lparr>attempts = 3, delay = d\<rparr> s =
     (case f 0 s of
        (None, s1) \<Rightarrow> (None, s1, [])
      | (Some e0, s1) \<Rightarrow>
          (case f 1 s1 of
             (None, s2) \<Rightarrow> (None, s2, [d])
           | (Some e1, s2) \<Rightarrow>
               (case f 2 s2 of
                  (None, s3) \<Rightarrow> (None, s3, [d, d])
                | (Some e2, s3) \<Rightarrow> (Some (RetryErrors [e0, e1, e2]), s3, [d, d]))))"
  by (simp add: retry_Do_def numeral_3_eq_3 numeral_2_eq_2 split: prod.splits option.splits)

lemma matchAttempt_ok:
  "\<not> attemptFails registry id' n \<Longrightarrow>
   matchAttempt registry id' n s = (None, (fst (MatchService (registry n) id'), None))"
  by (cases "MatchService (registry n) id'") (simp add: attemptFails_def matchAttempt_def)

lemma matchAttempt_fail:
  "attemptFails registry id' n \<Longrightarrow>
   matchAttempt registry id' n s =
     (Some (Wrap ''failed to get minio instance for object id'' (the (snd (MatchService (registry n) id')))),
      (fst (MatchService (registry n) id'), snd (MatchService (registry n) id')))"
  by (cases "MatchService (registry n) id'") (auto simp add: attemptFails_def matchAttempt_def)

lemma retry_first_success:
  assumes "firstSuccess registry id' k"
  shows "retry_Do (matchAttempt registry id') \<lparr>attempts = 3, delay = d\<rparr> s =
           (None, (fst (MatchService (registry k) id'), None), replicate k d)"
proof -
  from assms have k: "k = 0 \<or> k = 1 \<or> k = 2" by (auto simp add: firstSuccess_def)
  from assms have ok: "\<not> attemptFails registry id' k" by (simp add: firstSuccess_def)
  from assms have bad: "\<And>n. n < k \<Longrightarrow> attemptFails registry id' n" by (simp add: firstSuccess_def)
  from k show ?thesis
  proof (elim disjE)
    assume "k = 0"
    then show ?thesis using ok by (simp add: retry_Do_3 matchAttempt_ok)
  next
    assume k1: "k = 1"
    then have "attemptFails registry id' 0" using bad by simp
    then show ?thesis using ok k1 by (simp add: retry_Do_3 matchAttempt_ok matchAttempt_fail)
  next
    assume k2: "k = 2"
    then have "attemptFails registry id' 0" "attemptFails registry id' 1" using bad by simp_all
    then show ?thesis using ok k2
      by (simp add: retry_Do_3 matchAttempt_ok matchAttempt_fail numeral_2_eq_2)
  qed
qed





lemma getMatchingInstance_agree:
  assumes "MatchService (registry' 0) id2 = MatchService (registry 0) id1"
    and "MatchService (registry' 1) id2 = MatchService (registry 1) id1"
    and "MatchService (registry' 2) id2 = MatchService (registry 2) id1"
  shows "getMatchingInstance minio_New registry' id2 = getMatchingInstance minio_New registry id1"
proof -
  have e0: "matchAttempt registry' id2 0 = matchAttempt registry id1 0"
    using assms(1) by (intro ext) (simp add: matchAttempt_def)
  have e1: "matchAttempt registry' id2 1 = matchAttempt registry id1 1"
    using assms(2) by (intro ext) (simp add: matchAttempt_def)
  have e2: "matchAttempt registry' id2 2 = matchAttempt registry id1 2"
    using assms(3) by (intro ext) (simp add: matchAttempt_def)
  have "retry_Do (matchAttempt registry' id2) \<lparr>attempts = 3, delay = 300\<rparr> (zeroServiceMetadata, None) =
        retry_Do (matchAttempt registry id1) \<lparr>attempts = 3, delay = 300\<rparr> (zeroServiceMetadata, None)"
    by (simp only: retry_Do_3 e0 e1 e2)
  then show ?thesis by (simp add: getMatchingInstance_def)
qed

lemma getMatchingInstance_success:
  assumes "firstSuccess registry id' k"
  shows "getMatchingInstance minio_New registry id' =
     (case minio_New (IPAddress (fst (MatchService (registry k) id')) @ '':9000'')
             \<lparr>Creds = (AccessKey (fst (MatchService (registry k) id')),
                       SecretKey (fst (MatchService (registry k) id')), []),
              Secure = False\<rparr> of
        Inl err \<Rightarrow> Inl (Wrap ''failed to create minio client'' err)
      | Inr minioInstance \<Rightarrow> Inr minioInstance,
      replicate k 300)"
  by (simp add: getMatchingInstance_def retry_first_success [OF assms] Let_def split: sum.splits)



lemma MatchService_registry12: "MatchService registry12 key = (node1, None)"
  by (simp add: MatchService_def ring_Get_def cmap_Get_def registry12_def RegisterService_def
      NewRegistry_def NewConsistentHash_def ring_Add_def firstOwner_def node1_def node2_def Let_def)

lemma MatchService_registryRingOnly:
  "MatchService registryRingOnly key =
     (zeroServiceMetadata, Some (Errorf ''could not find service with IP {   }''))"
  by (simp add: MatchService_def ring_Get_def cmap_Get_def registryRingOnly_def firstOwner_def
      fmt_s_def zeroServiceMetadata_def)

lemma firstSuccess_views: "firstSuccess views ''abc123'' 1"
  by (simp add: firstSuccess_def attemptFails_def views_def MatchService_registry12
      MatchService_registryRingOnly)


text \<open>
  C10. When a resolution succeeds with the metadata of attempt \<open>k\<close>, the client is what
  the constructor returns for the endpoint made of that node's address followed by
  \<^verbatim>\<open>:9000\<close>, with that node's access key and secret key as static credentials, an
  empty session token and TLS off (or the wrapped error, if the constructor fails). The
  object id enters only through \<open>MatchService\<close>: two ids that resolve alike give the same
  outcome. The bucket is no argument of the function.
\<close>

theorem getMatchingInstance_client:
  "(firstSuccess registry id' k \<longrightarrow>
      fst (getMatchingInstance minio_New registry id') =
        (case minio_New (IPAddress (fst (MatchService (registry k) id')) @ '':9000'')
                \<lparr>Creds = (AccessKey (fst (MatchService (registry k) id')),
                          SecretKey (fst (MatchService (registry k) id')), []),
                 Secure = False\<rparr> of
           Inl err \<Rightarrow> Inl (Wrap ''failed to create minio client'' err)
         | Inr minioInstance \<Rightarrow> Inr minioInstance)) \<and>
   ((\<forall>n<3. MatchService (registry n) id2 = MatchService (registry n) id') \<longrightarrow>
      getMatchingInstance minio_New registry id2 = getMatchingInstance minio_New registry id')"
proof -
  have "getMatchingInstance minio_New registry id2 = getMatchingInstance minio_New registry id'"
    if "\<forall>n<3. MatchService (registry n) id2 = MatchService (registry n) id'"
    using that by (intro getMatchingInstance_agree) simp_all
  then show ?thesis using getMatchingInstance_success [of registry id' k minio_New] by simp
qed

theorem getMatchingInstance_client_witness:
  "firstSuccess views ''abc123'' 1 \<and>
   fst (getMatchingInstance recordingNew views ''abc123'') =
     Inr (''10.0.0.1:9000'', \<lparr>Creds = (''ring'', ''treepotato'', []), Secure = False\<rparr>) \<and>
   MatchService (views 0) ''xyz789'' = MatchService (views 0) ''abc123'' \<and>
   MatchService (views 1) ''xyz789'' = MatchService (views 1) ''abc123'' \<and>
   MatchService (views 2) ''xyz789'' = MatchService (views 2) ''abc123'' \<and>
   getMatchingInstance recordingNew views ''xyz789'' = getMatchingInstance recordingNew views ''abc123''"
proof -
  have 1: "\<forall>n<3. MatchService (views n) ''xyz789'' = MatchService (views n) ''abc123''"
    by (simp add: views_def MatchService_registry12 MatchService_registryRingOnly)
  have 3: "views (Suc 0) = registry12" by (simp add: views_def)
  show ?thesis
    using getMatchingInstance_client [of views "''abc123''" 1 recordingNew "''xyz789''"]
      firstSuccess_views 1
    by (simp add: 3 MatchService_registry12 recordingNew_def node1_def)
qed

end
